theory Spec2Isabelle
  imports Complex_Main "HOL-Library.Char_ord" "HOL-Library.List_Lexorder"
begin

section \<open>The request pipeline of the abhi-go-sdk client\<close>

text \<open>
  A shallow embedding of the Go package \<open>client\<close>: the token-bucket rate limiter, the
  HMAC request signer, the credential encryption, the token manager and the chain of
  \<open>http.RoundTripper\<close> decorators that the client installs on its \<open>http.Client\<close>.
  Go strings and byte slices are both \<open>string\<close> (lists of 8-bit characters); a nil
  pointer is \<open>None\<close>; a function that returns \<open>(value, error)\<close> returns a sum whose
  \<open>Inl\<close> carries the error; \<open>time.Now()\<close> is an argument of the function that reads it.
\<close>

subsection \<open>Configuration (config.go)\<close>

record RateLimitConfig =
  RequestsPerSecond :: real
  BurstSize :: int
  Enabled :: bool

record SecurityConfig =
  EncryptCredentials :: bool
  EncryptionPassword :: string
  EnableRequestSigning :: bool
  SigningSecret :: string

subsection \<open>Rate limiter (the second file of signing.go)\<close>

text \<open>
  \<open>float64\<close> fields are modelled as real numbers: the arithmetic of \<open>Allow\<close> is
  exact here, rounding is not modelled. A \<open>time.Time\<close> is the integer count of
  nanoseconds its monotonic clock reading stands for, a \<open>time.Duration\<close> an integer
  count of nanoseconds, and \<open>Duration.Seconds\<close> divides by \<open>10^9\<close>.
\<close>

record RateLimiter =
  tokens :: real
  maxTokens :: real
  refillRate :: real
  lastRefill :: int

definition Seconds :: "int \<Rightarrow> real" where
  "Seconds d = real_of_int d / 1000000000"

definition NewRateLimiter :: "RateLimitConfig option \<Rightarrow> int \<Rightarrow> RateLimiter option" where
  "NewRateLimiter cfg now =
     (case cfg of
        None \<Rightarrow> None
      | Some c \<Rightarrow>
          if \<not> Enabled c then None
          else Some \<lparr> tokens = real_of_int (BurstSize c),
                      maxTokens = real_of_int (BurstSize c),
                      refillRate = RequestsPerSecond c,
                      lastRefill = now \<rparr>)"

text \<open>
  \<open>Allow\<close> returns the answer and the limiter as the call leaves it. The mutex makes
  the body one atomic step, so a call is a function of the state it finds.
\<close>

definition Allow :: "RateLimiter option \<Rightarrow> int \<Rightarrow> bool \<times> RateLimiter option" where
  "Allow rl now =
     (case rl of
        None \<Rightarrow> (True, None)
      | Some l \<Rightarrow>
          let elapsed = Seconds (now - lastRefill l);
              l1 = l\<lparr>tokens := tokens l + elapsed * refillRate l\<rparr>;
              l2 = (if tokens l1 > maxTokens l1 then l1\<lparr>tokens := maxTokens l1\<rparr> else l1);
              l3 = l2\<lparr>lastRefill := now\<rparr>
          in if tokens l3 \<ge> 1 then (True, Some (l3\<lparr>tokens := tokens l3 - 1\<rparr>))
             else (False, Some l3))"

text \<open>Consecutive calls of \<open>Allow\<close> at the clock readings of the list, oldest first.\<close>

fun AllowSeq :: "RateLimiter option \<Rightarrow> int list \<Rightarrow> bool list \<times> RateLimiter option" where
  "AllowSeq rl [] = ([], rl)"
| "AllowSeq rl (now # nows) =
     (case Allow rl now of
        (ok, rl') \<Rightarrow> (case AllowSeq rl' nows of (oks, rl'') \<Rightarrow> (ok # oks, rl'')))"

subsection \<open>Transports (client.go, signing.go)\<close>

record RequestSigner =
  secret :: string

definition NewRequestSigner :: "string \<Rightarrow> RequestSigner" where
  "NewRequestSigner s = \<lparr> secret = s \<rparr>"

text \<open>
  An \<open>http.RoundTripper\<close> of the program: \<open>http.DefaultTransport\<close>, a transport the
  caller supplied (named by a number), or one of the three decorators with the fields
  of its struct in their order.
\<close>

datatype transport =
    DefaultTransport
  | CustomTransport nat
  | signingTransport transport "RequestSigner option"
  | rateLimitTransport transport "RateLimiter option"
  | retryTransport transport int int

text \<open>
  \<open>HTTPClient\<close> is a pointer to an \<open>http.Client\<close>: \<open>None\<close> when nil, otherwise the
  client's \<open>Transport\<close> field, itself \<open>None\<close> when nil.
\<close>

record Config =
  BaseURL :: string
  Username :: string
  Password :: string
  HTTPClient :: "transport option option"
  RateLimit :: "RateLimitConfig option"
  Security :: "SecurityConfig option"

definition DefaultConfig :: Config where
  "DefaultConfig =
     \<lparr> BaseURL = ''https://api-uat-v2.abhi.ae/uat-open-api'',
       Username = [],
       Password = [],
       HTTPClient = Some None,
       RateLimit = Some \<lparr> RequestsPerSecond = 10, BurstSize = 20, Enabled = False \<rparr>,
       Security = Some \<lparr> EncryptCredentials = False, EncryptionPassword = [],
                         EnableRequestSigning = False, SigningSecret = [] \<rparr> \<rparr>"

text \<open>
  The client. \<open>httpClient\<close> is the pointer \<open>config.HTTPClient\<close>; the field here holds
  the \<open>Transport\<close> of the client it points to, which is what the methods below assign.
\<close>

record Client =
  config :: Config
  httpClient :: "transport option option"
  rateLimiter :: "RateLimiter option"
  requestSigner :: "RequestSigner option"

datatype panic = NilPointerDereference

definition New :: "Config option \<Rightarrow> int \<Rightarrow> Client" where
  "New cfg now =
     (let config0 = (case cfg of None \<Rightarrow> DefaultConfig | Some c \<Rightarrow> c);
          client = \<lparr> config = config0,
                     httpClient = HTTPClient config0,
                     rateLimiter = NewRateLimiter (RateLimit config0) now,
                     requestSigner = None \<rparr>;
          client = (case Security config0 of
                      None \<Rightarrow> client
                    | Some sec \<Rightarrow>
                        if EnableRequestSigning sec \<and> SigningSecret sec \<noteq> []
                        then client\<lparr>requestSigner := Some (NewRequestSigner (SigningSecret sec))\<rparr>
                        else client)
      in case httpClient client of
           None \<Rightarrow> client
         | Some tr \<Rightarrow>
             let transport = (case tr of None \<Rightarrow> DefaultTransport | Some t \<Rightarrow> t);
                 transport = (case requestSigner client of
                                None \<Rightarrow> transport
                              | Some s \<Rightarrow> signingTransport transport (Some s));
                 transport = (case rateLimiter client of
                                None \<Rightarrow> transport
                              | Some l \<Rightarrow> rateLimitTransport transport (Some l))
             in client\<lparr>httpClient := Some (Some transport)\<rparr>)"

definition SetRetryPolicy :: "Client \<Rightarrow> int \<Rightarrow> int \<Rightarrow> panic + Client" where
  "SetRetryPolicy c maxRetries retryDelay =
     (case httpClient c of
        None \<Rightarrow> Inl NilPointerDereference
      | Some tr \<Rightarrow>
          let originalTransport = (case tr of None \<Rightarrow> DefaultTransport | Some t \<Rightarrow> t)
          in Inr (c\<lparr>httpClient := Some (Some (retryTransport originalTransport maxRetries retryDelay))\<rparr>))"

definition updateTransportChain :: "Client \<Rightarrow> panic + Client" where
  "updateTransportChain c =
     (let transport = DefaultTransport;
          transport = (case requestSigner c of
                         None \<Rightarrow> transport
                       | Some s \<Rightarrow> signingTransport transport (Some s));
          transport = (case rateLimiter c of
                         None \<Rightarrow> transport
                       | Some l \<Rightarrow> rateLimitTransport transport (Some l))
      in case httpClient c of
           None \<Rightarrow> Inl NilPointerDereference
         | Some _ \<Rightarrow> Inr (c\<lparr>httpClient := Some (Some transport)\<rparr>))"

definition ClientEnableRequestSigning :: "Client \<Rightarrow> string \<Rightarrow> panic + Client" where
  "ClientEnableRequestSigning c signingSecret =
     (let sec = (case Security (config c) of
                   None \<Rightarrow> \<lparr> EncryptCredentials = False, EncryptionPassword = [],
                               EnableRequestSigning = False, SigningSecret = [] \<rparr>
                 | Some s \<Rightarrow> s);
          sec = sec\<lparr>EnableRequestSigning := True, SigningSecret := signingSecret\<rparr>;
          c = c\<lparr>config := (config c)\<lparr>Security := Some sec\<rparr>\<rparr>;
          c = c\<lparr>requestSigner := Some (NewRequestSigner signingSecret)\<rparr>
      in updateTransportChain c)"

definition ClientDisableRequestSigning :: "Client \<Rightarrow> panic + Client" where
  "ClientDisableRequestSigning c =
     (let c = (case Security (config c) of
                 None \<Rightarrow> c
               | Some sec \<Rightarrow> c\<lparr>config := (config c)\<lparr>Security := Some (sec\<lparr>EnableRequestSigning := False\<rparr>)\<rparr>\<rparr>);
          c = c\<lparr>requestSigner := None\<rparr>
      in updateTransportChain c)"

subsection \<open>Running a request through a transport\<close>

text \<open>
  What a \<open>RoundTrip\<close> returns: a response (status code and payload) with a nil error,
  a nil response with an error, the pair \<open>(nil, nil)\<close>, or a panic.
\<close>

datatype result = Response int string | Failed string | NilNil | Panicked

text \<open>What the base transport can return: by the \<open>RoundTripper\<close> contract, one of the first two.\<close>

datatype outcome = Status int string | NetErr string

fun resultOf :: "outcome \<Rightarrow> result" where
  "resultOf (Status st b) = Response st b"
| "resultOf (NetErr e) = Failed e"

text \<open>
  The effects of a round trip, in the order they happen: a call of the rate limiter's
  \<open>Wait\<close>, a call of \<open>SignRequest\<close>, the base transport sending the request (with the
  bytes it read from \<open>req.Body\<close>, \<open>None\<close> for a nil body), a \<open>time.Sleep\<close> with its
  argument in nanoseconds.
\<close>

datatype event = EvWait | EvSign | EvSend "string option" | EvSleep int

text \<open>
  The surroundings of a request: what the server answers to the \<open>k\<close>-th request it
  receives, and whether the \<open>k\<close>-th \<open>Wait\<close> ends with the context's error (\<open>Some\<close>) or
  admits the request (\<open>None\<close>).
\<close>

record env =
  server :: "nat \<Rightarrow> outcome"
  ctxErr :: "nat \<Rightarrow> string option"

text \<open>
  The state a request is sent in: \<open>req.Body\<close> (a stream read once: \<open>None\<close> when nil,
  otherwise the bytes not read yet), the requests sent and the \<open>Wait\<close> calls made so
  far, and the effects so far.
\<close>

record world =
  reqBody :: "string option"
  sends :: nat
  waits :: nat
  trace :: "event list"

text \<open>The base transport reads the body to its end and sends the request.\<close>

definition baseRoundTrip :: "env \<Rightarrow> world \<Rightarrow> result \<times> world" where
  "baseRoundTrip e w =
     (resultOf (server e (sends w)),
      w\<lparr>reqBody := map_option (\<lambda>_. []) (reqBody w),
        sends := Suc (sends w),
        trace := trace w @ [EvSend (reqBody w)]\<rparr>)"

text \<open>
  \<open>int64\<close> arithmetic wraps. \<open>backoff\<close> is the argument of \<open>time.Sleep\<close>:
  \<open>rt.retryDelay * time.Duration(1<<uint(i))\<close>, a shift and a product of \<open>int64\<close>.
\<close>

definition wrap64 :: "int \<Rightarrow> int" where
  "wrap64 x = (x + 2 ^ 63) mod 2 ^ 64 - 2 ^ 63"

definition backoff :: "int \<Rightarrow> int \<Rightarrow> int" where
  "backoff retryDelay i = wrap64 (retryDelay * wrap64 (2 ^ nat i))"

text \<open>
  The loop of \<open>retryTransport.RoundTrip\<close>, from the top of iteration \<open>i\<close>; \<open>prev\<close> is the
  pair \<open>(resp, err)\<close> of the iteration before. Reading the body to its end and putting
  the bytes read back leaves \<open>req.Body\<close> with the same unread bytes, so the top of the
  iteration changes nothing; \<open>bodyBytes\<close> is nil exactly when \<open>req.Body\<close> is.
\<close>

function retryLoop ::
  "(world \<Rightarrow> result \<times> world) \<Rightarrow> int \<Rightarrow> int \<Rightarrow> int \<Rightarrow> result \<Rightarrow> world \<Rightarrow> result \<times> world" where
  "retryLoop inner maxRetries retryDelay i prev w =
     (if i \<le> maxRetries then
        (let bodyBytes = reqBody w in
         case inner w of
           (r, w2) \<Rightarrow>
             (case r of
                Panicked \<Rightarrow> (Panicked, w2)
              | NilNil \<Rightarrow> (Panicked, w2)
              | _ \<Rightarrow>
                  if (case r of Response st _ \<Rightarrow> st < 500 | _ \<Rightarrow> False) then (r, w2)
                  else if i = maxRetries then (r, w2)
                  else
                    let w3 = (case bodyBytes of
                                None \<Rightarrow> w2
                              | Some b \<Rightarrow> w2\<lparr>reqBody := Some b\<rparr>);
                        w4 = w3\<lparr>trace := trace w3 @ [EvSleep (backoff retryDelay i)]\<rparr>
                    in retryLoop inner maxRetries retryDelay (i + 1) r w4))
      else (prev, w))"
  by pat_completeness auto
termination
  by (relation "measure (\<lambda>(inner, maxRetries, retryDelay, i, prev, w). nat (maxRetries + 1 - i))") auto

declare retryLoop.simps [simp del]

text \<open>
  \<open>RoundTrip\<close> of each transport. The signing transport reads the body and puts it
  back, then signs; a nil signer and a nil limiter do nothing.
\<close>

primrec roundTrip :: "env \<Rightarrow> transport \<Rightarrow> world \<Rightarrow> result \<times> world" where
  "roundTrip e DefaultTransport = baseRoundTrip e"
| "roundTrip e (CustomTransport n) = baseRoundTrip e"
| "roundTrip e (signingTransport t signer) =
     (\<lambda>w. case signer of
            None \<Rightarrow> roundTrip e t w
          | Some s \<Rightarrow> roundTrip e t (w\<lparr>trace := trace w @ [EvSign]\<rparr>))"
| "roundTrip e (rateLimitTransport t limiter) =
     (\<lambda>w. case limiter of
            None \<Rightarrow> roundTrip e t w
          | Some l \<Rightarrow>
              let w1 = w\<lparr>waits := Suc (waits w), trace := trace w @ [EvWait]\<rparr>
              in (case ctxErr e (waits w) of
                    Some err \<Rightarrow> (Failed err, w1)
                  | None \<Rightarrow> roundTrip e t w1))"
| "roundTrip e (retryTransport t maxRetries retryDelay) =
     retryLoop (roundTrip e t) maxRetries retryDelay 0 NilNil"

subsection \<open>Reading a chain\<close>

datatype layer = Signing | AdmissionControl | Retry | BaseTransport

text \<open>The layers of a chain, outermost first, and the transport at its bottom.\<close>

fun layers :: "transport \<Rightarrow> layer list" where
  "layers DefaultTransport = [BaseTransport]"
| "layers (CustomTransport n) = [BaseTransport]"
| "layers (signingTransport t s) = Signing # layers t"
| "layers (rateLimitTransport t l) = AdmissionControl # layers t"
| "layers (retryTransport t m d) = Retry # layers t"

fun baseOf :: "transport \<Rightarrow> transport" where
  "baseOf (signingTransport t s) = baseOf t"
| "baseOf (rateLimitTransport t l) = baseOf t"
| "baseOf (retryTransport t m d) = baseOf t"
| "baseOf t = t"

subsection \<open>What a retried request is expected to do\<close>

text \<open>
  These definitions follow the specification's words, not the code; the theorems below
  compare them with \<open>retryLoop\<close>. An answer is retried when it is a transport error
  or a status of 500 and more.
\<close>

fun retryable :: "outcome \<Rightarrow> bool" where
  "retryable (NetErr e) = True"
| "retryable (Status st b) = (500 \<le> st)"

text \<open>
  The number of attempts when \<open>k\<close> retries remain and the server has received \<open>s\<close>
  requests: attempts go on while the answer is retried and a retry remains.
\<close>

fun attemptCount :: "(nat \<Rightarrow> outcome) \<Rightarrow> nat \<Rightarrow> nat \<Rightarrow> nat" where
  "attemptCount srv s 0 = 1"
| "attemptCount srv s (Suc k) = (if retryable (srv s) then Suc (attemptCount srv (Suc s) k) else 1)"

text \<open>
  The effects of \<open>n\<close> attempts, the first with index \<open>j\<close>: each attempt is the effects
  \<open>pre\<close> of the layers above the base transport and the send of the body \<open>b\<close>; a sleep
  of \<open>dur j\<close> follows attempt \<open>j\<close> unless it is the last.
\<close>

fun attemptsTrace :: "event list \<Rightarrow> string option \<Rightarrow> (nat \<Rightarrow> int) \<Rightarrow> nat \<Rightarrow> nat \<Rightarrow> event list" where
  "attemptsTrace pre b dur j 0 = []"
| "attemptsTrace pre b dur j (Suc n) =
     pre @ [EvSend b] @ (if n = 0 then [] else EvSleep (dur j) # attemptsTrace pre b dur (Suc j) n)"

text \<open>
  A transport under the retry layer that sends one request a call, after the effects
  \<open>pre\<close> and \<open>q\<close> calls of \<open>Wait\<close>.
\<close>

definition attemptLike :: "env \<Rightarrow> event list \<Rightarrow> nat \<Rightarrow> (world \<Rightarrow> result \<times> world) \<Rightarrow> bool" where
  "attemptLike e pre q inner =
     (\<forall>w. inner w =
        (resultOf (server e (sends w)),
         w\<lparr>reqBody := map_option (\<lambda>_. []) (reqBody w), sends := Suc (sends w),
           waits := waits w + q, trace := trace w @ pre @ [EvSend (reqBody w)]\<rparr>))"

text \<open>The layers of the client's chain, and the effects of one request sent through it.\<close>

definition clientLayers :: "panic + Client \<Rightarrow> layer list" where
  "clientLayers r =
     (case r of
        Inl _ \<Rightarrow> []
      | Inr c \<Rightarrow> (case httpClient c of Some (Some t) \<Rightarrow> layers t | _ \<Rightarrow> []))"

definition clientTrace :: "env \<Rightarrow> panic + Client \<Rightarrow> world \<Rightarrow> event list" where
  "clientTrace e r w =
     (case r of
        Inl _ \<Rightarrow> []
      | Inr c \<Rightarrow> (case httpClient c of Some (Some t) \<Rightarrow> trace (snd (roundTrip e t w)) | _ \<Rightarrow> []))"

text \<open>Concrete inputs: a server that fails twice, a request with a body, a full configuration.\<close>

definition flaky :: env where
  "flaky = \<lparr> server = (\<lambda>k. if k < 2 then Status 500 [] else Status 200 ''ok''),
             ctxErr = (\<lambda>k. None) \<rparr>"

definition world0 :: world where
  "world0 = \<lparr> reqBody = Some ''test request body'', sends = 0, waits = 0, trace = [] \<rparr>"

definition fullConfig :: Config where
  "fullConfig =
     DefaultConfig\<lparr>
       RateLimit := Some \<lparr> RequestsPerSecond = 5, BurstSize = 10, Enabled = True \<rparr>,
       Security := Some \<lparr> EncryptCredentials = False, EncryptionPassword = [],
                          EnableRequestSigning = True, SigningSecret = ''s3cret'' \<rparr> \<rparr>"

text \<open>A client over a transport of the caller's, with a retry policy installed.\<close>

definition customClient :: Client where
  "customClient =
     (case SetRetryPolicy (New (Some (fullConfig\<lparr>HTTPClient := Some (Some (CustomTransport 7))\<rparr>)) 0)
             3 10000000 of
        Inr c \<Rightarrow> c
      | Inl _ \<Rightarrow> New None 0)"

subsection \<open>Token manager (auth.go)\<close>

text \<open>
  A \<open>time.Time\<close> of the token manager is the integer count of nanoseconds since the
  zero \<open>time.Time\<close> (January 1, year 1, UTC), so the zero timestamp is 0 and
  \<open>time.Unix(sec, 0)\<close> lies 62135596800 seconds after it.
\<close>

definition zeroTime :: int where
  "zeroTime = 0"

definition Minute :: int where
  "Minute = 60 * 1000000000"

definition Hour :: int where
  "Hour = 60 * Minute"

definition Unix :: "int \<Rightarrow> int" where
  "Unix sec = (sec + 62135596800) * 1000000000"

text \<open>A decoded JSON value; an object is the decoded map, one pair a key.\<close>

datatype json =
    JNull
  | JBool bool
  | JNumber real
  | JString string
  | JArray "json list"
  | JObject "(string \<times> json) list"

text \<open>
  The login endpoint's answer as \<open>refreshToken\<close> reads it: the status code, the
  \<open>Message\<close> of the body decoded as \<open>models.ErrorResponse\<close> and the \<open>Data\<close> of the body
  decoded as \<open>models.APIResponse\<close>, each \<open>None\<close> when that decoding fails. A login
  attempt ends with an error of \<open>http.NewRequestWithContext\<close>, an error of
  \<open>httpClient.Do\<close>, or an answer.
\<close>

record loginResponse =
  StatusCode :: int
  errorMessage :: "string option"
  apiData :: "json option"

datatype loginOutcome =
    RequestError string
  | DoError string
  | Received loginResponse

datatype authError =
    ErrCreateRequest string
  | ErrPerformRequest string
  | ErrLoginFailed string
  | ErrLoginStatus int
  | ErrDecodeResponse
  | ErrInvalidDataFormat
  | ErrTokenNotFound

text \<open>
  The fields of \<open>AuthManager\<close> that hold state (the locks are not state of a sequential
  run; \<open>httpClient\<close> is the pointer \<open>config.HTTPClient\<close>).
\<close>

record AuthManager =
  authConfig :: Config
  token :: string
  expiresAt :: int
  refreshing :: bool

definition NewAuthManager :: "Config \<Rightarrow> AuthManager" where
  "NewAuthManager cfg = \<lparr> authConfig = cfg, token = [], expiresAt = zeroTime, refreshing = False \<rparr>"

definition isTokenValid :: "AuthManager \<Rightarrow> int \<Rightarrow> bool" where
  "isTokenValid a now = (if token a = [] then False else now + 5 * Minute < expiresAt a)"

fun splitOn :: "char \<Rightarrow> string \<Rightarrow> string list" where
  "splitOn sep [] = [[]]"
| "splitOn sep (c # cs) =
     (if c = sep then [] # splitOn sep cs
      else (case splitOn sep cs of [] \<Rightarrow> [[c]] | w # ws \<Rightarrow> (c # w) # ws))"

text \<open>
  \<open>parseTokenExpiration\<close>. The JWT library is not code of the repository:
  \<open>ParseUnverified\<close> refuses a string that is not three segments between dots and
  otherwise decodes the claims, which is the argument \<open>decodeClaims\<close> (\<open>None\<close> for an
  error, else the claims as a decoded map). \<open>int64(exp)\<close> drops the fraction.
\<close>

definition truncate64 :: "real \<Rightarrow> int" where
  "truncate64 x = (if 0 \<le> x then \<lfloor>x\<rfloor> else \<lceil>x\<rceil>)"

definition parseTokenExpiration ::
  "(string \<Rightarrow> (string \<times> json) list option) \<Rightarrow> string \<Rightarrow> int option" where
  "parseTokenExpiration decodeClaims tokenString =
     (if length (splitOn CHR ''.'' tokenString) \<noteq> 3 then None
      else (case decodeClaims tokenString of
              None \<Rightarrow> None
            | Some claims \<Rightarrow>
                (case map_of claims ''exp'' of
                   Some (JNumber ex) \<Rightarrow> Some (Unix (truncate64 ex))
                 | _ \<Rightarrow> None)))"

text \<open>
  \<open>refreshToken\<close>, given the clock readings of the second validity check (\<open>now2\<close>) and
  of the fallback expiry (\<open>now3\<close>) and the outcome of the login attempt. It returns the
  token or the error, and the manager as the call leaves it.
\<close>

definition refreshToken ::
  "(string \<Rightarrow> (string \<times> json) list option) \<Rightarrow> AuthManager \<Rightarrow> int \<Rightarrow> int \<Rightarrow> loginOutcome
     \<Rightarrow> (authError + string) \<times> AuthManager" where
  "refreshToken decodeClaims a now2 now3 outcome =
     (if isTokenValid a now2 then (Inr (token a), a)
      else (case outcome of
              RequestError e \<Rightarrow> (Inl (ErrCreateRequest e), a)
            | DoError e \<Rightarrow> (Inl (ErrPerformRequest e), a)
            | Received resp \<Rightarrow>
                if StatusCode resp \<noteq> 200 then
                  (case errorMessage resp of
                     Some m \<Rightarrow> (Inl (ErrLoginFailed m), a)
                   | None \<Rightarrow> (Inl (ErrLoginStatus (StatusCode resp)), a))
                else (case apiData resp of
                        None \<Rightarrow> (Inl ErrDecodeResponse, a)
                      | Some d \<Rightarrow>
                          (case d of
                             JObject loginData \<Rightarrow>
                               (case map_of loginData ''token'' of
                                  Some (JString tok) \<Rightarrow>
                                    let expires = (case parseTokenExpiration decodeClaims tok of
                                                     Some t \<Rightarrow> t
                                                   | None \<Rightarrow> now3 + 23 * Hour)
                                    in (Inr tok, a\<lparr>token := tok, expiresAt := expires\<rparr>)
                                | _ \<Rightarrow> (Inl ErrTokenNotFound, a))
                           | _ \<Rightarrow> (Inl ErrInvalidDataFormat, a)))))"

definition GetToken ::
  "(string \<Rightarrow> (string \<times> json) list option) \<Rightarrow> AuthManager \<Rightarrow> int \<Rightarrow> int \<Rightarrow> int \<Rightarrow> loginOutcome
     \<Rightarrow> (authError + string) \<times> AuthManager" where
  "GetToken decodeClaims a now1 now2 now3 outcome =
     (if isTokenValid a now1 then (Inr (token a), a)
      else refreshToken decodeClaims a now2 now3 outcome)"

definition ClearToken :: "AuthManager \<Rightarrow> AuthManager" where
  "ClearToken a = a\<lparr>token := [], expiresAt := zeroTime\<rparr>"

text \<open>A sequence of calls on one manager, each call with what it reads from outside.\<close>

datatype authCall = CallGetToken int int int loginOutcome | CallClearToken

fun authStep :: "(string \<Rightarrow> (string \<times> json) list option) \<Rightarrow> AuthManager \<Rightarrow> authCall \<Rightarrow> AuthManager" where
  "authStep dc a (CallGetToken now1 now2 now3 outcome) = snd (GetToken dc a now1 now2 now3 outcome)"
| "authStep dc a CallClearToken = ClearToken a"

definition runCalls ::
  "(string \<Rightarrow> (string \<times> json) list option) \<Rightarrow> Config \<Rightarrow> authCall list \<Rightarrow> AuthManager" where
  "runCalls dc cfg calls = foldl (authStep dc) (NewAuthManager cfg) calls"

text \<open>The invariant of the specification's data model.\<close>

definition tokenInvariant :: "AuthManager \<Rightarrow> bool" where
  "tokenInvariant a = ((token a = []) = (expiresAt a = zeroTime))"

text \<open>
  The failures of a login attempt the specification names: a network error, a status
  other than 200, an envelope that does not decode, a token field that is missing or
  not a string.
\<close>

fun loginFails :: "loginOutcome \<Rightarrow> bool" where
  "loginFails (RequestError e) = True"
| "loginFails (DoError e) = True"
| "loginFails (Received resp) =
     (StatusCode resp \<noteq> 200 \<or>
      (case apiData resp of
         None \<Rightarrow> True
       | Some (JObject loginData) \<Rightarrow>
           (case map_of loginData ''token'' of Some (JString tok) \<Rightarrow> False | _ \<Rightarrow> True)
       | Some _ \<Rightarrow> True))"

text \<open>
  What a call stores when it stores a token: a call stores well when the token is not
  empty and its expiry is not the zero timestamp.
\<close>

fun storesWell :: "(string \<Rightarrow> (string \<times> json) list option) \<Rightarrow> authCall \<Rightarrow> bool" where
  "storesWell dc CallClearToken = True"
| "storesWell dc (CallGetToken now1 now2 now3 outcome) =
     (case outcome of
        Received resp \<Rightarrow>
          (case apiData resp of
             Some (JObject loginData) \<Rightarrow>
               (case map_of loginData ''token'' of
                  Some (JString tok) \<Rightarrow>
                    tok \<noteq> [] \<and>
                    (case parseTokenExpiration dc tok of Some t \<Rightarrow> t | None \<Rightarrow> now3 + 23 * Hour)
                      \<noteq> zeroTime
                | _ \<Rightarrow> True)
           | _ \<Rightarrow> True)
      | _ \<Rightarrow> True)"

text \<open>Concrete login answers: an empty token, a token whose \<open>exp\<close> claim is the year 1, a refusal.\<close>

definition emptyTokenReply :: loginOutcome where
  "emptyTokenReply =
     Received \<lparr> StatusCode = 200, errorMessage = Some ''Success'',
                apiData = Some (JObject [(''token'', JString [])]) \<rparr>"

definition yearOneReply :: loginOutcome where
  "yearOneReply =
     Received \<lparr> StatusCode = 200, errorMessage = Some ''Success'',
                apiData = Some (JObject [(''token'', JString ''a.b.c'')]) \<rparr>"

definition yearOneClaims :: "string \<Rightarrow> (string \<times> json) list option" where
  "yearOneClaims tokenString = Some [(''exp'', JNumber (- 62135596800))]"

definition noClaims :: "string \<Rightarrow> (string \<times> json) list option" where
  "noClaims tokenString = None"

definition refusedReply :: loginOutcome where
  "refusedReply =
     Received \<lparr> StatusCode = 401, errorMessage = Some ''bad credentials'', apiData = None \<rparr>"

definition goodReply :: loginOutcome where
  "goodReply =
     Received \<lparr> StatusCode = 200, errorMessage = Some ''Success'',
                apiData = Some (JObject [(''token'', JString ''h.p.s'')]) \<rparr>"

text \<open>A manager with a cached token.\<close>

definition cached :: AuthManager where
  "cached = \<lparr> authConfig = DefaultConfig, token = ''h.p.s'',
              expiresAt = Unix 1700000600, refreshing = False \<rparr>"

text \<open>A bucket of three tokens refilled at two tokens a second.\<close>

definition smallBucket :: RateLimitConfig where
  "smallBucket = \<lparr> RequestsPerSecond = 2, BurstSize = 3, Enabled = True \<rparr>"

subsection \<open>Request signer (signing.go)\<close>

text \<open>
  The parts of an \<open>http.Request\<close> the signer reads and writes. A header is the map
  \<open>http.Header\<close> from keys to lists of values.
\<close>

record url =
  Path :: string
  RawQuery :: string

record request =
  Method :: string
  URL :: url
  Header :: "string \<Rightarrow> string list option"

text \<open>
  \<open>textproto.CanonicalMIMEHeaderKey\<close>: a key made of token bytes only has the first
  letter and every letter after a hyphen in upper case and the other letters in lower
  case; any other key is left as it is.
\<close>

definition validHeaderFieldByte :: "char \<Rightarrow> bool" where
  "validHeaderFieldByte c =
     (let n = (of_char c :: nat)
      in (48 \<le> n \<and> n \<le> 57) \<or> (65 \<le> n \<and> n \<le> 90) \<or> (97 \<le> n \<and> n \<le> 122) \<or>
         n \<in> {33, 35, 36, 37, 38, 39, 42, 43, 45, 46, 94, 95, 96, 124, 126})"

fun canonicalLetters :: "bool \<Rightarrow> string \<Rightarrow> string" where
  "canonicalLetters upper [] = []"
| "canonicalLetters upper (c # cs) =
     (let n = (of_char c :: nat);
          c' = (if upper \<and> 97 \<le> n \<and> n \<le> 122 then char_of (n - 32)
                else if \<not> upper \<and> 65 \<le> n \<and> n \<le> 90 then char_of (n + 32)
                else c)
      in c' # canonicalLetters (c' = CHR ''-'') cs)"

definition CanonicalMIMEHeaderKey :: "string \<Rightarrow> string" where
  "CanonicalMIMEHeaderKey s = (if list_all validHeaderFieldByte s then canonicalLetters True s else s)"

definition HeaderGet :: "(string \<Rightarrow> string list option) \<Rightarrow> string \<Rightarrow> string" where
  "HeaderGet h key =
     (case h (CanonicalMIMEHeaderKey key) of
        None \<Rightarrow> []
      | Some [] \<Rightarrow> []
      | Some (v # vs) \<Rightarrow> v)"

definition HeaderSet :: "(string \<Rightarrow> string list option) \<Rightarrow> string \<Rightarrow> string \<Rightarrow> (string \<Rightarrow> string list option)" where
  "HeaderSet h key v = h(CanonicalMIMEHeaderKey key \<mapsto> [v])"

text \<open>
  Library functions that are not code of the repository are arguments of the model:
  \<open>sha256.Sum256\<close>, HMAC-SHA256 (key first) and \<open>strings.TrimSpace\<close>.
\<close>

record library =
  sha256Sum :: "string \<Rightarrow> string"
  hmacSHA256 :: "string \<Rightarrow> string \<Rightarrow> string"
  TrimSpace :: "string \<Rightarrow> string"

text \<open>\<open>strings.Join\<close>, \<open>hex.EncodeToString\<close>, \<open>strconv.FormatInt\<close> and \<open>strconv.ParseInt\<close> in base 10.\<close>

fun Join :: "string list \<Rightarrow> string \<Rightarrow> string" where
  "Join [] sep = []"
| "Join [x] sep = x"
| "Join (x # y # ys) sep = x @ sep @ Join (y # ys) sep"

definition hexDigit :: "nat \<Rightarrow> char" where
  "hexDigit n = ''0123456789abcdef'' ! n"

definition EncodeToString :: "string \<Rightarrow> string" where
  "EncodeToString bs = concat (map (\<lambda>b. [hexDigit (of_char b div 16), hexDigit (of_char b mod 16)]) bs)"

definition digitChar :: "nat \<Rightarrow> char" where
  "digitChar n = char_of (48 + n)"

fun natDigits :: "nat \<Rightarrow> string" where
  "natDigits n = (if n < 10 then [digitChar n] else natDigits (n div 10) @ [digitChar (n mod 10)])"

declare natDigits.simps [simp del]

definition FormatInt :: "int \<Rightarrow> string" where
  "FormatInt i = (if i < 0 then CHR ''-'' # natDigits (nat (- i)) else natDigits (nat i))"

definition digitVal :: "char \<Rightarrow> nat option" where
  "digitVal c = (let n = (of_char c :: nat) in if 48 \<le> n \<and> n \<le> 57 then Some (n - 48) else None)"

fun parseDigits :: "nat \<Rightarrow> string \<Rightarrow> nat option" where
  "parseDigits acc [] = Some acc"
| "parseDigits acc (c # cs) =
     (case digitVal c of None \<Rightarrow> None | Some d \<Rightarrow> parseDigits (acc * 10 + d) cs)"

text \<open>
  \<open>ParseInt(s, 10, 64)\<close>: an optional sign, then digits; a value outside \<open>int64\<close> is an
  error (\<open>None\<close>), as is an empty or malformed string.
\<close>

definition ParseInt :: "string \<Rightarrow> int option" where
  "ParseInt s =
     (case s of
        [] \<Rightarrow> None
      | c # cs \<Rightarrow>
          let neg = (c = CHR ''-'');
              s1 = (if c = CHR ''+'' \<or> c = CHR ''-'' then cs else s)
          in if s1 = [] then None
             else (case parseDigits 0 s1 of
                     None \<Rightarrow> None
                   | Some un \<Rightarrow>
                       if \<not> neg \<and> 2 ^ 63 \<le> un then None
                       else if neg \<and> 2 ^ 63 < un then None
                       else Some (if neg then - int un else int un)))"

definition newline :: string where
  "newline = [CHR 0x0A]"

definition canonicalizeQuery :: "string \<Rightarrow> string" where
  "canonicalizeQuery query =
     (if query = [] then []
      else let params = splitOn CHR ''&'' query;
               params = sort params
           in Join params ''&'')"

definition headersToSign :: "string list" where
  "headersToSign = [''authorization'', ''content-type'', ''x-timestamp'']"

definition canonicalizeHeaders :: "library \<Rightarrow> request \<Rightarrow> string" where
  "canonicalizeHeaders lib req =
     (let headerParts =
        foldl (\<lambda>headerParts headerName.
                 let v = HeaderGet (Header req) headerName
                 in if v \<noteq> [] then headerParts @ [headerName @ '':'' @ TrimSpace lib v]
                    else headerParts)
          [] headersToSign
      in Join headerParts newline)"

definition createStringToSign :: "library \<Rightarrow> request \<Rightarrow> string \<Rightarrow> int \<Rightarrow> string" where
  "createStringToSign lib req body timestamp =
     (let parts = [];
          parts = parts @ [Method req];
          parts = parts @ [Path (URL req)];
          parts = (if RawQuery (URL req) \<noteq> [] then parts @ [canonicalizeQuery (RawQuery (URL req))]
                   else parts @ [[]]);
          parts = parts @ [canonicalizeHeaders lib req];
          bodyHash = sha256Sum lib body;
          parts = parts @ [EncodeToString bodyHash];
          parts = parts @ [FormatInt timestamp]
      in Join parts newline)"

definition generateSignature :: "library \<Rightarrow> RequestSigner \<Rightarrow> string \<Rightarrow> string" where
  "generateSignature lib rs stringToSign = EncodeToString (hmacSHA256 lib (secret rs) stringToSign)"

text \<open>
  \<open>SignRequest\<close> with \<open>now\<close> the value of \<open>time.Now().Unix()\<close>; it returns the request
  as it leaves it (its error is always nil).
\<close>

definition SignRequest :: "library \<Rightarrow> RequestSigner option \<Rightarrow> request \<Rightarrow> string \<Rightarrow> int \<Rightarrow> request" where
  "SignRequest lib signer req body now =
     (case signer of
        None \<Rightarrow> req
      | Some rs \<Rightarrow>
          let timestamp = now;
              req = req\<lparr>Header := HeaderSet (Header req) ''X-Timestamp'' (FormatInt timestamp)\<rparr>;
              stringToSign = createStringToSign lib req body timestamp;
              signature = generateSignature lib rs stringToSign
          in req\<lparr>Header := HeaderSet (Header req) ''X-Signature'' signature\<rparr>)"

definition abs64 :: "int \<Rightarrow> int" where
  "abs64 x = (if x < 0 then wrap64 (- x) else x)"

definition VerifySignature ::
  "library \<Rightarrow> RequestSigner option \<Rightarrow> request \<Rightarrow> string \<Rightarrow> string \<Rightarrow> int \<Rightarrow> bool" where
  "VerifySignature lib signer req body signature now =
     (case signer of
        None \<Rightarrow> True
      | Some rs \<Rightarrow>
          let timestampStr = HeaderGet (Header req) ''X-Timestamp''
          in if timestampStr = [] then False
             else (case ParseInt timestampStr of
                     None \<Rightarrow> False
                   | Some timestamp \<Rightarrow>
                       if abs64 (wrap64 (now - timestamp)) > 300 then False
                       else let stringToSign = createStringToSign lib req body timestamp;
                                expectedSignature = generateSignature lib rs stringToSign
                            in signature = expectedSignature))"

text \<open>The canonical string in the specification's words: six lines.\<close>

definition specQueryLine :: "request \<Rightarrow> string" where
  "specQueryLine req = Join (sort (splitOn CHR ''&'' (RawQuery (URL req)))) ''&''"

definition specHeaderLines :: "library \<Rightarrow> request \<Rightarrow> string list" where
  "specHeaderLines lib req =
     map (\<lambda>name. name @ '':'' @ TrimSpace lib (HeaderGet (Header req) name))
       (filter (\<lambda>name. HeaderGet (Header req) name \<noteq> [])
          [''authorization'', ''content-type'', ''x-timestamp''])"

definition specCanonicalString :: "library \<Rightarrow> request \<Rightarrow> string \<Rightarrow> int \<Rightarrow> string" where
  "specCanonicalString lib req body timestamp =
     Join [Method req,
           Path (URL req),
           specQueryLine req,
           Join (specHeaderLines lib req) newline,
           EncodeToString (sha256Sum lib body),
           FormatInt timestamp] newline"

section \<open>Properties\<close>

subsection \<open>The retry loop\<close>

lemma attemptCount_pos: "0 < attemptCount srv s k"
  by (induction k arbitrary: s) auto

lemma retryLoop_run:
  assumes inner: "attemptLike e pre q inner"
  shows "0 \<le> i \<Longrightarrow> i \<le> m \<Longrightarrow> k = nat (m - i) \<Longrightarrow>
    retryLoop inner m d i prev w =
      (resultOf (server e (sends w + attemptCount (server e) (sends w) k - 1)),
       w\<lparr>reqBody := map_option (\<lambda>_. []) (reqBody w),
         sends := sends w + attemptCount (server e) (sends w) k,
         waits := waits w + q * attemptCount (server e) (sends w) k,
         trace := trace w @ attemptsTrace pre (reqBody w) (\<lambda>j. backoff d (int j)) (nat i)
                    (attemptCount (server e) (sends w) k)\<rparr>)"
proof (induction k arbitrary: i prev w)
  case 0
  then have im: "i = m" by simp
  have step: "inner w = (resultOf (server e (sends w)),
         w\<lparr>reqBody := map_option (\<lambda>_. []) (reqBody w), sends := Suc (sends w),
           waits := waits w + q, trace := trace w @ pre @ [EvSend (reqBody w)]\<rparr>)"
    using inner by (simp add: attemptLike_def)
  show ?case
    by (subst retryLoop.simps) (cases "server e (sends w)"; simp add: im step)
next
  case (Suc k)
  then have lt: "i < m" and k: "k = nat (m - (i + 1))" and i1: "0 \<le> i + 1" "i + 1 \<le> m" by auto
  have step: "inner w = (resultOf (server e (sends w)),
         w\<lparr>reqBody := map_option (\<lambda>_. []) (reqBody w), sends := Suc (sends w),
           waits := waits w + q, trace := trace w @ pre @ [EvSend (reqBody w)]\<rparr>)"
    using inner by (simp add: attemptLike_def)
  show ?case
  proof (cases "retryable (server e (sends w))")
    case False
    then show ?thesis using lt Suc.prems(1)
      by (subst retryLoop.simps) (cases "server e (sends w)"; simp add: step)
  next
    case True
    have pos: "0 < attemptCount (server e) (Suc (sends w)) k" by (rule attemptCount_pos)
    then obtain n' where n': "attemptCount (server e) (Suc (sends w)) k = Suc n'"
      by (cases "attemptCount (server e) (Suc (sends w)) k") auto
    have nati: "nat (i + 1) = Suc (nat i)" "int (nat i) = i" using Suc.prems by simp_all
    show ?thesis using lt True Suc.prems(1)
      apply (subst retryLoop.simps)
      apply (cases "server e (sends w)"; cases "reqBody w")
         apply (simp_all add: step Suc.IH[OF i1 k] nati n')
      done
  qed
qed









subsection \<open>Retry policy\<close>



subsection \<open>Order of the layers\<close>

lemma New_full_chain:
  assumes "HTTPClient cfg = Some tr"
    and "RateLimit cfg = Some rl" and "Enabled rl"
    and "Security cfg = Some sec" and "EnableRequestSigning sec" and "SigningSecret sec \<noteq> []"
  shows "httpClient (New (Some cfg) now) =
           Some (Some (rateLimitTransport
                         (signingTransport (case tr of None \<Rightarrow> DefaultTransport | Some t \<Rightarrow> t)
                            (Some (NewRequestSigner (SigningSecret sec))))
                         (NewRateLimiter (Some rl) now)))"
  using assms by (simp add: New_def NewRateLimiter_def Let_def)

lemma full_chain_attemptLike:
  assumes "layers t = [BaseTransport]" and "\<forall>k. ctxErr e k = None"
  shows "attemptLike e [EvWait, EvSign] 1
           (roundTrip e (rateLimitTransport (signingTransport t (Some s)) (Some l)))"
  using assms by (cases t) (simp_all add: attemptLike_def baseRoundTrip_def Let_def)

lemma fullConfig_chain:
  "SetRetryPolicy (New (Some fullConfig) 0) 3 10000000 =
     Inr ((New (Some fullConfig) 0)\<lparr>httpClient := Some (Some
       (retryTransport (rateLimitTransport (signingTransport DefaultTransport (Some \<lparr>secret = ''s3cret''\<rparr>))
           (Some \<lparr>tokens = 10, maxTokens = 10, refillRate = 5, lastRefill = 0\<rparr>)) 3 10000000))\<rparr>)"
  by (simp add: SetRetryPolicy_def New_def fullConfig_def DefaultConfig_def NewRateLimiter_def
        NewRequestSigner_def Let_def)

text \<open>
  C1, as amended. For a client built by \<open>New\<close> from a configuration with an HTTP
  client over a base transport, rate limiting enabled and signing enabled with a
  non-empty secret, followed by \<open>SetRetryPolicy\<close>: the layers of the chain are, outermost
  first, Retry, Admission Control, Signing, base transport. When the context is never
  cancelled and \<open>maxRetries \<ge> 0\<close>, the effects of one request are, for every attempt in
  turn, the rate limiter's \<open>Wait\<close>, then \<open>SignRequest\<close>, then the send, with the backoff
  sleep between two attempts: the limiter gates the request before it is signed, and
  every attempt is gated and signed anew.
\<close>

theorem client_chain_order:
  assumes "HTTPClient cfg = Some tr"
    and "layers (case tr of None \<Rightarrow> DefaultTransport | Some t \<Rightarrow> t) = [BaseTransport]"
    and "RateLimit cfg = Some rl" and "Enabled rl"
    and "Security cfg = Some sec" and "EnableRequestSigning sec" and "SigningSecret sec \<noteq> []"
    and "c = SetRetryPolicy (New (Some cfg) now) maxRetries retryDelay"
  shows "clientLayers c = [Retry, AdmissionControl, Signing, BaseTransport]
       \<and> (0 \<le> maxRetries \<and> (\<forall>k. ctxErr e k = None) \<longrightarrow>
            clientTrace e c w =
              trace w @ attemptsTrace [EvWait, EvSign] (reqBody w) (\<lambda>j. backoff retryDelay (int j)) 0
                          (attemptCount (server e) (sends w) (nat maxRetries)))"
proof -
  let ?b = "case tr of None \<Rightarrow> DefaultTransport | Some t \<Rightarrow> t"
  let ?s = "NewRequestSigner (SigningSecret sec)"
  let ?inner = "rateLimitTransport (signingTransport ?b (Some ?s)) (NewRateLimiter (Some rl) now)"
  obtain l where l: "NewRateLimiter (Some rl) now = Some l"
    using assms(4) by (simp add: NewRateLimiter_def)
  have chain: "httpClient (New (Some cfg) now) = Some (Some ?inner)"
    using assms(1,3-7) by (rule New_full_chain)
  obtain c' where c: "c = Inr c'" and hc: "httpClient c' = Some (Some (retryTransport ?inner maxRetries retryDelay))"
    using chain assms(8) by (simp add: SetRetryPolicy_def)
  have lay: "clientLayers c = [Retry, AdmissionControl, Signing, BaseTransport]"
    using c hc assms(2) by (simp add: clientLayers_def)
  have tr: "clientTrace e c w =
              trace w @ attemptsTrace [EvWait, EvSign] (reqBody w) (\<lambda>j. backoff retryDelay (int j)) 0
                          (attemptCount (server e) (sends w) (nat maxRetries))"
    if m: "0 \<le> maxRetries" and ok: "\<forall>k. ctxErr e k = None"
  proof -
    have al: "attemptLike e [EvWait, EvSign] 1 (roundTrip e ?inner)"
      unfolding l using assms(2) ok by (rule full_chain_attemptLike)
    have "retryLoop (roundTrip e ?inner) maxRetries retryDelay 0 NilNil w =
      (resultOf (server e (sends w + attemptCount (server e) (sends w) (nat maxRetries) - 1)),
       w\<lparr>reqBody := map_option (\<lambda>_. []) (reqBody w),
         sends := sends w + attemptCount (server e) (sends w) (nat maxRetries),
         waits := waits w + 1 * attemptCount (server e) (sends w) (nat maxRetries),
         trace := trace w @ attemptsTrace [EvWait, EvSign] (reqBody w) (\<lambda>j. backoff retryDelay (int j)) (nat 0)
                    (attemptCount (server e) (sends w) (nat maxRetries))\<rparr>)"
      by (rule retryLoop_run[OF al]) (use m in auto)
    then show ?thesis using c hc by (simp add: clientTrace_def)
  qed
  show ?thesis using lay tr by blast
qed

theorem client_chain_order_witness:
  "HTTPClient fullConfig = Some None
   \<and> layers DefaultTransport = [BaseTransport]
   \<and> RateLimit fullConfig = Some \<lparr> RequestsPerSecond = 5, BurstSize = 10, Enabled = True \<rparr>
   \<and> Security fullConfig = Some \<lparr> EncryptCredentials = False, EncryptionPassword = [],
                          EnableRequestSigning = True, SigningSecret = ''s3cret'' \<rparr>
   \<and> (0::int) \<le> 3 \<and> ctxErr flaky = (\<lambda>k. None)
   \<and> clientLayers (SetRetryPolicy (New (Some fullConfig) 0) 3 10000000) =
         [Retry, AdmissionControl, Signing, BaseTransport]
   \<and> clientTrace flaky (SetRetryPolicy (New (Some fullConfig) 0) 3 10000000) world0 =
         [EvWait, EvSign, EvSend (Some ''test request body''), EvSleep 10000000,
          EvWait, EvSign, EvSend (Some ''test request body''), EvSleep 20000000,
          EvWait, EvSign, EvSend (Some ''test request body'')]"
proof -
  let ?rl = "\<lparr> RequestsPerSecond = 5, BurstSize = 10, Enabled = True \<rparr>"
  let ?sec = "\<lparr> EncryptCredentials = False, EncryptionPassword = [],
                EnableRequestSigning = True, SigningSecret = ''s3cret'' \<rparr>"
  have h1: "HTTPClient fullConfig = Some None" by (simp add: fullConfig_def DefaultConfig_def)
  have h2: "layers (case None of None \<Rightarrow> DefaultTransport | Some t \<Rightarrow> t) = [BaseTransport]" by simp
  have h3: "RateLimit fullConfig = Some ?rl" by (simp add: fullConfig_def)
  have h4: "Enabled ?rl" by simp
  have h5: "Security fullConfig = Some ?sec" by (simp add: fullConfig_def)
  have h6: "EnableRequestSigning ?sec" by simp
  have h7: "SigningSecret ?sec \<noteq> []" by simp
  have h8: "ctxErr flaky = (\<lambda>k. None)" by (simp add: flaky_def)
  have h9: "\<forall>k. ctxErr flaky k = None" by (simp add: flaky_def)
  have cnt: "attemptCount (server flaky) (sends world0) (nat 3) = Suc (Suc (Suc 0))"
    by (simp add: flaky_def world0_def eval_nat_numeral)
  have bk: "backoff 10000000 0 = 10000000" "backoff 10000000 1 = 20000000"
    by (simp_all add: backoff_def wrap64_def)
  note t = client_chain_order[OF h1 h2 h3 h4 h5 h6 h7 refl, of 0 3 10000000 flaky world0]
  have "clientTrace flaky (SetRetryPolicy (New (Some fullConfig) 0) 3 10000000) world0 =
          trace world0 @ attemptsTrace [EvWait, EvSign] (reqBody world0) (\<lambda>j. backoff 10000000 (int j)) 0
                          (attemptCount (server flaky) (sends world0) (nat 3))"
    by (rule t[THEN conjunct2, THEN mp]) (use h9 in simp)
  then have tr: "clientTrace flaky (SetRetryPolicy (New (Some fullConfig) 0) 3 10000000) world0 =
         [EvWait, EvSign, EvSend (Some ''test request body''), EvSleep 10000000,
          EvWait, EvSign, EvSend (Some ''test request body''), EvSleep 20000000,
          EvWait, EvSign, EvSend (Some ''test request body'')]"
    unfolding cnt by (simp add: bk world0_def)
  have lay: "clientLayers (SetRetryPolicy (New (Some fullConfig) 0) 3 10000000) =
         [Retry, AdmissionControl, Signing, BaseTransport]"
    by (rule t[THEN conjunct1])
  show ?thesis using tr lay h1 h3 h5 h8 by simp
qed

text \<open>
  The order the claim states, Signing, Admission Control, Retry, base transport, is
  not the order of the chain that \<open>New\<close> and \<open>SetRetryPolicy\<close> build, and the first
  effect of a request is the limiter's \<open>Wait\<close>, not the signature.
\<close>

theorem client_chain_order_counterexample:
  "clientLayers (SetRetryPolicy (New (Some fullConfig) 0) 3 10000000)
     \<noteq> [Signing, AdmissionControl, Retry, BaseTransport]
   \<and> take 2 (clientTrace flaky (SetRetryPolicy (New (Some fullConfig) 0) 3 10000000) world0)
     = [EvWait, EvSign]"
proof -
  have al: "attemptLike flaky [EvWait, EvSign] 1
     (roundTrip flaky (rateLimitTransport (signingTransport DefaultTransport (Some \<lparr>secret = ''s3cret''\<rparr>))
           (Some \<lparr>tokens = 10, maxTokens = 10, refillRate = 5, lastRefill = 0\<rparr>)))"
    by (rule full_chain_attemptLike) (simp_all add: flaky_def)
  let ?inner = "rateLimitTransport (signingTransport DefaultTransport (Some \<lparr>secret = ''s3cret''\<rparr>))
           (Some \<lparr>tokens = 10, maxTokens = 10, refillRate = 5, lastRefill = 0\<rparr>)"
  have cnt: "attemptCount (server flaky) (sends world0) (nat (3 - 0)) = Suc (Suc (Suc 0))"
    by (simp add: flaky_def world0_def eval_nat_numeral)
  have "roundTrip flaky (retryTransport ?inner 3 10000000) world0 =
          retryLoop (roundTrip flaky ?inner) 3 10000000 0 NilNil world0"
    by (simp only: roundTrip.simps)
  also have "\<dots> =
      (resultOf (server flaky (sends world0 + attemptCount (server flaky) (sends world0) (nat (3 - 0)) - 1)),
       world0\<lparr>reqBody := map_option (\<lambda>_. []) (reqBody world0),
         sends := sends world0 + attemptCount (server flaky) (sends world0) (nat (3 - 0)),
         waits := waits world0 + 1 * attemptCount (server flaky) (sends world0) (nat (3 - 0)),
         trace := trace world0 @ attemptsTrace [EvWait, EvSign] (reqBody world0)
                    (\<lambda>j. backoff 10000000 (int j)) (nat 0)
                    (attemptCount (server flaky) (sends world0) (nat (3 - 0)))\<rparr>)"
    by (rule retryLoop_run[OF al]) simp_all
  finally have "take 2 (trace (snd (roundTrip flaky (retryTransport ?inner 3 10000000) world0)))
      = [EvWait, EvSign]"
    unfolding cnt by (simp add: world0_def)
  then have "take 2 (clientTrace flaky (SetRetryPolicy (New (Some fullConfig) 0) 3 10000000) world0)
     = [EvWait, EvSign]"
    unfolding fullConfig_chain by (simp add: clientTrace_def)
  moreover have "clientLayers (SetRetryPolicy (New (Some fullConfig) 0) 3 10000000)
     \<noteq> [Signing, AdmissionControl, Retry, BaseTransport]"
    unfolding fullConfig_chain by (simp add: clientLayers_def)
  ultimately show ?thesis by blast
qed

subsection \<open>Rebuilding the chain\<close>

lemma customClient_eq:
  "customClient =
     \<lparr> config = fullConfig\<lparr>HTTPClient := Some (Some (CustomTransport 7))\<rparr>,
       httpClient = Some (Some (retryTransport
          (rateLimitTransport (signingTransport (CustomTransport 7) (Some \<lparr>secret = ''s3cret''\<rparr>))
             (Some \<lparr>tokens = 10, maxTokens = 10, refillRate = 5, lastRefill = 0\<rparr>)) 3 10000000)),
       rateLimiter = Some \<lparr>tokens = 10, maxTokens = 10, refillRate = 5, lastRefill = 0\<rparr>,
       requestSigner = Some \<lparr>secret = ''s3cret''\<rparr> \<rparr>"
  by (simp add: customClient_def SetRetryPolicy_def New_def fullConfig_def DefaultConfig_def
        NewRateLimiter_def NewRequestSigner_def Let_def)

text \<open>
  C10. \<open>EnableRequestSigning\<close> and \<open>DisableRequestSigning\<close> return whenever the client
  has an HTTP client, and the chain either of them leaves is built on
  \<open>http.DefaultTransport\<close>: the signing layer (after enabling; none after disabling)
  over it, under the rate-limit layer when the client has a limiter. No retry layer
  and no transport of the caller's is in it.
\<close>

theorem signing_toggle_rebuilds_chain:
  "(httpClient c \<noteq> None \<longrightarrow>
      (\<exists>c'. ClientEnableRequestSigning c signingSecret = Inr c') \<and>
      (\<exists>c'. ClientDisableRequestSigning c = Inr c')) \<and>
   (\<forall>c'. ClientEnableRequestSigning c signingSecret = Inr c' \<longrightarrow>
      (\<exists>t. httpClient c' = Some (Some t) \<and>
           layers t = (if rateLimiter c = None then [] else [AdmissionControl]) @ [Signing, BaseTransport] \<and>
           baseOf t = DefaultTransport \<and> Retry \<notin> set (layers t))) \<and>
   (\<forall>c'. ClientDisableRequestSigning c = Inr c' \<longrightarrow>
      (\<exists>t. httpClient c' = Some (Some t) \<and>
           layers t = (if rateLimiter c = None then [] else [AdmissionControl]) @ [BaseTransport] \<and>
           baseOf t = DefaultTransport \<and> Retry \<notin> set (layers t)))"
  by (auto simp: ClientEnableRequestSigning_def ClientDisableRequestSigning_def
        updateTransportChain_def Let_def split: option.splits)

theorem signing_toggle_rebuilds_chain_witness:
  "httpClient customClient \<noteq> None
   \<and> clientLayers (Inr customClient) = [Retry, AdmissionControl, Signing, BaseTransport]
   \<and> map_option (map_option baseOf) (httpClient customClient) = Some (Some (CustomTransport 7))
   \<and> (\<exists>c'. ClientEnableRequestSigning customClient ''k'' = Inr c'
          \<and> clientLayers (Inr c') = [AdmissionControl, Signing, BaseTransport]
          \<and> map_option (map_option baseOf) (httpClient c') = Some (Some DefaultTransport))
   \<and> (\<exists>c'. ClientDisableRequestSigning customClient = Inr c'
          \<and> clientLayers (Inr c') = [AdmissionControl, BaseTransport]
          \<and> map_option (map_option baseOf) (httpClient c') = Some (Some DefaultTransport))"
proof -
  note t = signing_toggle_rebuilds_chain[of customClient "''k''"]
  have h: "httpClient customClient \<noteq> None" by (simp add: customClient_eq)
  have rl: "rateLimiter customClient \<noteq> None" by (simp add: customClient_eq)
  obtain c1 where c1: "ClientEnableRequestSigning customClient ''k'' = Inr c1"
    using t h by blast
  obtain c2 where c2: "ClientDisableRequestSigning customClient = Inr c2"
    using t h by blast
  obtain t1 where t1: "httpClient c1 = Some (Some t1)" "layers t1 = [AdmissionControl, Signing, BaseTransport]"
     "baseOf t1 = DefaultTransport"
    using t c1 rl by auto
  obtain t2 where t2: "httpClient c2 = Some (Some t2)" "layers t2 = [AdmissionControl, BaseTransport]"
     "baseOf t2 = DefaultTransport"
    using t c2 rl by auto
  have a: "clientLayers (Inr customClient) = [Retry, AdmissionControl, Signing, BaseTransport]"
     "map_option (map_option baseOf) (httpClient customClient) = Some (Some (CustomTransport 7))"
    by (simp_all add: customClient_eq clientLayers_def)
  show ?thesis using h a c1 c2 t1 t2 by (simp add: clientLayers_def)
qed

subsection \<open>Token manager\<close>

lemma refreshToken_fails_iff:
  "(\<exists>err. fst (refreshToken dc a now2 now3 outcome) = Inl err) =
     (\<not> isTokenValid a now2 \<and> loginFails outcome)"
  by (cases outcome)
     (auto simp: refreshToken_def Let_def split: option.splits json.splits)

lemma refreshToken_failure_state:
  "refreshToken dc a now2 now3 outcome = (Inl err, a') \<Longrightarrow> a' = a"
  by (cases outcome)
     (auto simp: refreshToken_def Let_def split: option.splits json.splits if_splits)

text \<open>
  C3. When \<open>GetToken\<close> returns an error the manager is as it was before the call, so
  every later call behaves as if the failed one had not been made; \<open>GetToken\<close>
  returns an error exactly when the cached token is valid at neither check and the
  login attempt fails in one of the ways named (a network error, a status other than
  200, an undecodable envelope, a missing or non-string token field); and a cached
  token that is valid at the time of a call is returned by it.
\<close>

theorem failed_refresh_keeps_state:
  "(GetToken dc a now1 now2 now3 outcome = (Inl err, a') \<longrightarrow>
      a' = a \<and> (\<forall>n1 n2 n3 out. GetToken dc a' n1 n2 n3 out = GetToken dc a n1 n2 n3 out)) \<and>
   ((\<exists>e. fst (GetToken dc a now1 now2 now3 outcome) = Inl e) =
      (\<not> isTokenValid a now1 \<and> \<not> isTokenValid a now2 \<and> loginFails outcome)) \<and>
   (isTokenValid a n \<longrightarrow> GetToken dc a n n2 n3 out = (Inr (token a), a))"
proof -
  have 1: "GetToken dc a now1 now2 now3 outcome = (Inl err, a') \<longrightarrow>
      a' = a \<and> (\<forall>n1 n2 n3 out. GetToken dc a' n1 n2 n3 out = GetToken dc a n1 n2 n3 out)"
    by (auto simp: GetToken_def split: if_splits dest: refreshToken_failure_state)
  have 2: "(\<exists>e. fst (GetToken dc a now1 now2 now3 outcome) = Inl e) =
      (\<not> isTokenValid a now1 \<and> \<not> isTokenValid a now2 \<and> loginFails outcome)"
    using refreshToken_fails_iff[of dc a now2 now3 outcome] by (simp add: GetToken_def)
  have 3: "isTokenValid a n \<longrightarrow> GetToken dc a n n2 n3 out = (Inr (token a), a)"
    by (simp add: GetToken_def)
  show ?thesis using 1 2 3 by blast
qed

theorem failed_refresh_keeps_state_witness:
  "GetToken noClaims cached (Unix 1700000400) (Unix 1700000401) (Unix 1700000402) refusedReply
     = (Inl (ErrLoginFailed ''bad credentials''), cached)
   \<and> \<not> isTokenValid cached (Unix 1700000400) \<and> \<not> isTokenValid cached (Unix 1700000401)
   \<and> loginFails refusedReply
   \<and> isTokenValid cached (Unix 1700000000)
   \<and> GetToken noClaims cached (Unix 1700000000) (Unix 1700000000) (Unix 1700000000) refusedReply
     = (Inr ''h.p.s'', cached)"
proof -
  note t = failed_refresh_keeps_state[of noClaims cached "Unix 1700000400" "Unix 1700000401"
      "Unix 1700000402" refusedReply "ErrLoginFailed ''bad credentials''" cached
      "Unix 1700000000" "Unix 1700000000" "Unix 1700000000" refusedReply]
  have v: "isTokenValid cached (Unix 1700000000)"
    "\<not> isTokenValid cached (Unix 1700000400)" "\<not> isTokenValid cached (Unix 1700000401)"
    by (simp_all add: isTokenValid_def cached_def Unix_def Minute_def)
  have f: "loginFails refusedReply" by (simp add: refusedReply_def)
  have g: "GetToken noClaims cached (Unix 1700000400) (Unix 1700000401) (Unix 1700000402) refusedReply
     = (Inl (ErrLoginFailed ''bad credentials''), cached)"
    using v by (simp add: GetToken_def refreshToken_def refusedReply_def)
  show ?thesis using t v f g by (simp add: cached_def)
qed

lemma authStep_invariant:
  "tokenInvariant a \<Longrightarrow> storesWell dc c \<Longrightarrow> tokenInvariant (authStep dc a c)"
  by (cases c)
     (auto simp: GetToken_def refreshToken_def ClearToken_def tokenInvariant_def Let_def
        split: loginOutcome.splits option.splits json.splits if_splits)

lemma foldl_invariant:
  "tokenInvariant a \<Longrightarrow> \<forall>c\<in>set calls. storesWell dc c \<Longrightarrow>
   tokenInvariant (foldl (authStep dc) a calls)"
  by (induction calls arbitrary: a) (auto intro: authStep_invariant)

text \<open>
  C2, as amended. After \<open>NewAuthManager\<close> and any sequence of \<open>GetToken\<close> and
  \<open>ClearToken\<close> calls in which every login answer that is stored carries a non-empty
  token and an expiry (the token's \<open>exp\<close> claim, or 23 hours after the clock reading
  when it has none) other than the zero timestamp, the cached token is empty exactly
  when the cached expiry is the zero timestamp.
\<close>

theorem token_invariant_reachable:
  "\<forall>c\<in>set calls. storesWell dc c \<Longrightarrow> tokenInvariant (runCalls dc cfg calls)"
  unfolding runCalls_def
  by (rule foldl_invariant) (simp_all add: NewAuthManager_def tokenInvariant_def)

theorem token_invariant_reachable_witness:
  "storesWell noClaims (CallGetToken (Unix 1700000000) (Unix 1700000000) (Unix 1700000001) goodReply)
   \<and> storesWell noClaims (CallGetToken (Unix 1700000100) (Unix 1700000100) (Unix 1700000100) refusedReply)
   \<and> storesWell noClaims CallClearToken
   \<and> tokenInvariant (runCalls noClaims DefaultConfig
     [CallGetToken (Unix 1700000000) (Unix 1700000000) (Unix 1700000001) goodReply,
      CallGetToken (Unix 1700000100) (Unix 1700000100) (Unix 1700000100) refusedReply,
      CallClearToken])
   \<and> token (runCalls noClaims DefaultConfig
     [CallGetToken (Unix 1700000000) (Unix 1700000000) (Unix 1700000001) goodReply]) = ''h.p.s''"
proof -
  have w1: "storesWell noClaims (CallGetToken (Unix 1700000000) (Unix 1700000000) (Unix 1700000001) goodReply)"
    by (simp add: goodReply_def parseTokenExpiration_def noClaims_def
          Unix_def Hour_def Minute_def zeroTime_def)
  have w2: "storesWell noClaims (CallGetToken (Unix 1700000100) (Unix 1700000100) (Unix 1700000100) refusedReply)"
    by (simp add: refusedReply_def)
  have w3: "storesWell noClaims CallClearToken" by simp
  have w: "\<forall>c\<in>set [CallGetToken (Unix 1700000000) (Unix 1700000000) (Unix 1700000001) goodReply,
              CallGetToken (Unix 1700000100) (Unix 1700000100) (Unix 1700000100) refusedReply,
              CallClearToken]. storesWell noClaims c"
    using w1 w2 w3 by simp
  have t: "token (runCalls noClaims DefaultConfig
     [CallGetToken (Unix 1700000000) (Unix 1700000000) (Unix 1700000001) goodReply]) = ''h.p.s''"
    by (simp add: runCalls_def NewAuthManager_def GetToken_def refreshToken_def isTokenValid_def
          goodReply_def Let_def)
  show ?thesis using token_invariant_reachable[OF w, of DefaultConfig] w1 w2 w3 t by blast
qed

text \<open>
  The invariant as stated fails both ways: a login answer whose token is the empty
  string is stored with an expiry 23 hours ahead, and a token whose \<open>exp\<close> claim is
  the year 1 is stored with the zero timestamp.
\<close>

theorem token_invariant_counterexample:
  "\<not> tokenInvariant (runCalls noClaims DefaultConfig
        [CallGetToken (Unix 1700000000) (Unix 1700000000) (Unix 1700000001) emptyTokenReply])
   \<and> \<not> tokenInvariant (runCalls yearOneClaims DefaultConfig
        [CallGetToken (Unix 1700000000) (Unix 1700000000) (Unix 1700000001) yearOneReply])"
  by (simp add: runCalls_def NewAuthManager_def GetToken_def refreshToken_def isTokenValid_def
        emptyTokenReply_def yearOneReply_def yearOneClaims_def noClaims_def Let_def
        parseTokenExpiration_def tokenInvariant_def zeroTime_def Unix_def Hour_def Minute_def
        truncate64_def)

subsection \<open>Token bucket\<close>

lemma Allow_Some:
  "Allow (Some l) now =
     (let t = min (maxTokens l) (tokens l + Seconds (now - lastRefill l) * refillRate l)
      in (1 \<le> t, Some (l\<lparr>tokens := (if 1 \<le> t then t - 1 else t), lastRefill := now\<rparr>)))"
  by (simp add: Allow_def Let_def min_def)

lemma burst_admitted:
  "tokens l = real k \<Longrightarrow> real k \<le> maxTokens l \<Longrightarrow> lastRefill l = t0 \<Longrightarrow>
   AllowSeq (Some l) (replicate k t0) = (replicate k True, Some (l\<lparr>tokens := 0\<rparr>))"
proof (induction k arbitrary: l)
  case 0
  then show ?case by simp
next
  case (Suc k)
  let ?l' = "l\<lparr>tokens := real k\<rparr>"
  have step: "Allow (Some l) t0 = (True, Some ?l')"
    using Suc.prems by (cases l) (simp add: Allow_Some Seconds_def min_def)
  have "AllowSeq (Some ?l') (replicate k t0) = (replicate k True, Some (?l'\<lparr>tokens := 0\<rparr>))"
    by (rule Suc.IH) (use Suc.prems in simp_all)
  then show ?case using step by simp
qed

lemma Allow_budget:
  assumes "tokens l \<le> Seconds (lastRefill l - te) * refillRate l"
    and "Allow (Some l) now = (ok, rl')"
  shows "\<exists>l'. rl' = Some l' \<and> refillRate l' = refillRate l
           \<and> tokens l' \<le> Seconds (lastRefill l' - te) * refillRate l'
           \<and> (ok \<longrightarrow> 1 \<le> Seconds (now - te) * refillRate l)"
proof -
  let ?t = "min (maxTokens l) (tokens l + Seconds (now - lastRefill l) * refillRate l)"
  have "Seconds (lastRefill l - te) * refillRate l + Seconds (now - lastRefill l) * refillRate l
          = Seconds (now - te) * refillRate l"
    by (simp add: Seconds_def algebra_simps add_divide_distrib[symmetric] diff_divide_distrib[symmetric])
  then have le: "?t \<le> Seconds (now - te) * refillRate l" using assms(1) by (simp add: min_def)
  show ?thesis using assms(2) le by (auto simp: Allow_Some Let_def)
qed

lemma AllowSeq_budget:
  "tokens l \<le> Seconds (lastRefill l - te) * refillRate l \<Longrightarrow>
   AllowSeq (Some l) ts = (oks, rl) \<Longrightarrow> i < length ts \<Longrightarrow> oks ! i \<Longrightarrow>
   1 \<le> Seconds (ts ! i - te) * refillRate l"
proof (induction ts arbitrary: l oks rl i)
  case Nil
  then show ?case by simp
next
  case (Cons now ts)
  obtain ok rl' where a: "Allow (Some l) now = (ok, rl')" by (cases "Allow (Some l) now")
  obtain l' where l': "rl' = Some l'" "refillRate l' = refillRate l"
      "tokens l' \<le> Seconds (lastRefill l' - te) * refillRate l'"
      "ok \<longrightarrow> 1 \<le> Seconds (now - te) * refillRate l"
    using Allow_budget[OF Cons.prems(1) a] by blast
  obtain oks' rl'' where s: "AllowSeq (Some l') ts = (oks', rl'')" by (cases "AllowSeq (Some l') ts")
  have oks: "oks = ok # oks'" using Cons.prems(2) a l'(1) s by simp
  show ?case
  proof (cases i)
    case 0
    then show ?thesis using Cons.prems(4) oks l'(4) by simp
  next
    case (Suc j)
    then have "1 \<le> Seconds (ts ! j - te) * refillRate l'"
      using Cons.prems(3,4) oks by (intro Cons.IH[OF l'(3) s]) simp_all
    then show ?thesis using Suc l'(2) by simp
  qed
qed

lemma wait_at_least:
  assumes "1 \<le> Seconds d * r" and "0 \<le> d"
  shows "0 < r \<and> 1 / r \<le> Seconds d"
proof -
  have s0: "0 \<le> Seconds d" using assms(2) by (simp add: Seconds_def)
  have r: "0 < r"
  proof (rule ccontr)
    assume "\<not> 0 < r"
    then have "Seconds d * r \<le> 0" using s0 by (simp add: mult_nonneg_nonpos)
    then show False using assms(1) by simp
  qed
  then show ?thesis using assms(1) by (simp add: divide_le_eq)
qed

text \<open>
  C5. A call of \<open>Allow\<close> sets the tokens to the minimum of the capacity and the tokens
  plus the elapsed seconds times the refill rate, sets \<open>lastRefill\<close> to the clock
  reading, and admits exactly when the tokens are at least 1, taking one. From a new
  limiter of burst size \<open>C\<close>, \<open>C\<close> calls at the clock reading of its creation are
  admitted and the next call at that reading is denied; and whatever calls follow, one
  that is admitted at a reading not before that of the creation comes at least
  \<open>1/R\<close> seconds after it, with \<open>R > 0\<close>. (\<open>float64\<close> is exact real arithmetic here.)
\<close>

theorem token_bucket_contract:
  "Allow (Some l) now =
     (let t = min (maxTokens l) (tokens l + Seconds (now - lastRefill l) * refillRate l)
      in (1 \<le> t, Some (l\<lparr>tokens := (if 1 \<le> t then t - 1 else t), lastRefill := now\<rparr>)))
   \<and> (NewRateLimiter (Some cfg) t0 = Some l0 \<longrightarrow>
        (\<exists>le. AllowSeq (Some l0) (replicate (nat (BurstSize cfg)) t0)
                 = (replicate (nat (BurstSize cfg)) True, Some le)
             \<and> fst (Allow (Some le) t0) = False
             \<and> (\<forall>ts oks rl i. AllowSeq (Some le) ts = (oks, rl) \<and> i < length ts \<and> oks ! i
                    \<and> t0 \<le> ts ! i
                  \<longrightarrow> 0 < refillRate l0 \<and> 1 / refillRate l0 \<le> Seconds (ts ! i - t0))))"
proof (intro conjI impI)
  show "Allow (Some l) now =
     (let t = min (maxTokens l) (tokens l + Seconds (now - lastRefill l) * refillRate l)
      in (1 \<le> t, Some (l\<lparr>tokens := (if 1 \<le> t then t - 1 else t), lastRefill := now\<rparr>)))"
    by (rule Allow_Some)
next
  assume new: "NewRateLimiter (Some cfg) t0 = Some l0"
  let ?n = "nat (BurstSize cfg)"
  have l0: "tokens l0 = real_of_int (BurstSize cfg)" "maxTokens l0 = real_of_int (BurstSize cfg)"
      "lastRefill l0 = t0" "refillRate l0 = RequestsPerSecond cfg"
    using new by (auto simp: NewRateLimiter_def split: if_splits)
  show "\<exists>le. AllowSeq (Some l0) (replicate ?n t0) = (replicate ?n True, Some le)
             \<and> fst (Allow (Some le) t0) = False
             \<and> (\<forall>ts oks rl i. AllowSeq (Some le) ts = (oks, rl) \<and> i < length ts \<and> oks ! i
                    \<and> t0 \<le> ts ! i
                  \<longrightarrow> 0 < refillRate l0 \<and> 1 / refillRate l0 \<le> Seconds (ts ! i - t0))"
  proof (cases "0 \<le> BurstSize cfg")
    case True
    then have k: "tokens l0 = real ?n" "real ?n \<le> maxTokens l0" using l0 by simp_all
    let ?le = "l0\<lparr>tokens := 0\<rparr>"
    have a: "AllowSeq (Some l0) (replicate ?n t0) = (replicate ?n True, Some ?le)"
      using k l0(3) by (rule burst_admitted)
    have b: "fst (Allow (Some ?le) t0) = False"
      using l0 by (simp add: Allow_Some Seconds_def min_def)
    have c: "0 < refillRate l0 \<and> 1 / refillRate l0 \<le> Seconds (ts ! i - t0)"
      if "AllowSeq (Some ?le) ts = (oks, rl)" "i < length ts" "oks ! i" "t0 \<le> ts ! i" for ts oks rl i
    proof -
      have "tokens ?le \<le> Seconds (lastRefill ?le - t0) * refillRate ?le"
        using l0 by (simp add: Seconds_def)
      then have "1 \<le> Seconds (ts ! i - t0) * refillRate ?le"
        using that(1-3) by (rule AllowSeq_budget)
      then show ?thesis using that(4) wait_at_least[of "ts ! i - t0" "refillRate l0"] by simp
    qed
    show ?thesis using a b c by blast
  next
    case False
    then have n0: "?n = 0" by simp
    have a: "AllowSeq (Some l0) (replicate ?n t0) = (replicate ?n True, Some l0)"
      using n0 by simp
    have neg: "tokens l0 < 0" using False l0 by simp
    have b: "fst (Allow (Some l0) t0) = False"
      using l0 False by (simp add: Allow_Some Seconds_def min_def)
    have c: "0 < refillRate l0 \<and> 1 / refillRate l0 \<le> Seconds (ts ! i - t0)"
      if "AllowSeq (Some l0) ts = (oks, rl)" "i < length ts" "oks ! i" "t0 \<le> ts ! i" for ts oks rl i
    proof -
      have "tokens l0 \<le> Seconds (lastRefill l0 - t0) * refillRate l0"
        using l0 neg by (simp add: Seconds_def)
      then have "1 \<le> Seconds (ts ! i - t0) * refillRate l0"
        using that(1-3) by (rule AllowSeq_budget)
      then show ?thesis using that(4) wait_at_least[of "ts ! i - t0" "refillRate l0"] by simp
    qed
    show ?thesis using a b c by blast
  qed
qed

theorem token_bucket_contract_witness:
  "NewRateLimiter (Some smallBucket) 0
     = Some \<lparr> tokens = 3, maxTokens = 3, refillRate = 2, lastRefill = 0 \<rparr>
   \<and> AllowSeq (Some \<lparr> tokens = 3, maxTokens = 3, refillRate = 2, lastRefill = 0 \<rparr>) [0, 0, 0]
     = ([True, True, True], Some \<lparr> tokens = 0, maxTokens = 3, refillRate = 2, lastRefill = 0 \<rparr>)
   \<and> AllowSeq (Some \<lparr> tokens = 0, maxTokens = 3, refillRate = 2, lastRefill = 0 \<rparr>)
        [0, 400000000, 500000000]
     = ([False, False, True], Some \<lparr> tokens = 0, maxTokens = 3, refillRate = 2, lastRefill = 500000000 \<rparr>)
   \<and> (0::real) < 2 \<and> 1 / 2 \<le> Seconds (500000000 - 0)"
proof -
  let ?l0 = "\<lparr> tokens = 3, maxTokens = 3, refillRate = 2, lastRefill = 0 \<rparr>"
  let ?le = "\<lparr> tokens = 0, maxTokens = 3, refillRate = 2, lastRefill = 0 \<rparr>"
  let ?ts = "[0, 400000000, 500000000] :: int list"
  have new: "NewRateLimiter (Some smallBucket) 0 = Some ?l0"
    by (simp add: NewRateLimiter_def smallBucket_def)
  have n: "replicate (nat (BurstSize smallBucket)) (0::int) = [0, 0, 0]"
    "replicate (nat (BurstSize smallBucket)) True = [True, True, True]"
    by (simp_all add: smallBucket_def eval_nat_numeral)
  have burst: "AllowSeq (Some ?l0) [0, 0, 0] = ([True, True, True], Some ?le)"
    by (simp add: Allow_def Seconds_def Let_def)
  have later: "AllowSeq (Some ?le) ?ts
     = ([False, False, True], Some \<lparr> tokens = 0, maxTokens = 3, refillRate = 2, lastRefill = 500000000 \<rparr>)"
    by (simp add: Allow_def Seconds_def Let_def)
  from token_bucket_contract[of ?l0 0 smallBucket 0 ?l0] new
  obtain le where le: "AllowSeq (Some ?l0) (replicate (nat (BurstSize smallBucket)) 0)
                 = (replicate (nat (BurstSize smallBucket)) True, Some le)"
    and all: "\<forall>ts oks rl i. AllowSeq (Some le) ts = (oks, rl) \<and> i < length ts \<and> oks ! i
                    \<and> 0 \<le> ts ! i
                  \<longrightarrow> 0 < refillRate ?l0 \<and> 1 / refillRate ?l0 \<le> Seconds (ts ! i - 0)"
    by blast
  have "le = ?le" using le burst unfolding n by simp
  then have seq: "AllowSeq (Some le) ?ts
     = ([False, False, True], Some \<lparr> tokens = 0, maxTokens = 3, refillRate = 2, lastRefill = 500000000 \<rparr>)"
    using later by simp
  have "AllowSeq (Some le) ?ts
          = ([False, False, True], Some \<lparr> tokens = 0, maxTokens = 3, refillRate = 2, lastRefill = 500000000 \<rparr>)
        \<and> 2 < length ?ts \<and> [False, False, True] ! 2 \<and> 0 \<le> ?ts ! 2"
    using seq by simp
  then have "0 < refillRate ?l0 \<and> 1 / refillRate ?l0 \<le> Seconds (?ts ! 2 - 0)"
    by (rule all[rule_format])
  then have "(0::real) < 2 \<and> 1 / 2 \<le> Seconds (500000000 - 0)" by simp
  then show ?thesis using new burst later by blast
qed

end
